theory Spec2Isabelle
  imports Complex_Main "HOL-Library.Sublist"
begin

section \<open>Recipe Nutrition Filtering App: the query builder\<close>

text \<open>
  The development follows \<^verbatim>\<open>09_streamlit_app.py\<close>. The function
  \<^verbatim>\<open>search_recipes\<close> assembles the text of one SQL statement from its arguments and
  hands it to \<^verbatim>\<open>pd.read_sql\<close>. The first part of the theory is that text, character
  by character; the second part is the call of the engine and what \<^verbatim>\<open>search_recipes\<close>
  makes of its outcome; the third part is the result presenter of the page.
\<close>

subsection \<open>Python strings\<close>

definition nl :: string where
  "nl = [CHR 0x0A]"

definition squote :: char where
  "squote = CHR 0x27"

text \<open>\<^verbatim>\<open>str(i)\<close> for a Python int: decimal digits, with a minus sign below zero.\<close>

fun str_nat :: "nat \<Rightarrow> string" where
  "str_nat n =
     (if n < 10 then [''0123456789'' ! n]
      else str_nat (n div 10) @ [''0123456789'' ! (n mod 10)])"

declare str_nat.simps [simp del]

definition str_int :: "int \<Rightarrow> string" where
  "str_int i = (if i < 0 then CHR ''-'' # str_nat (nat (- i)) else str_nat (nat i))"

text \<open>\<^verbatim>\<open>sep.join(xs)\<close>.\<close>

fun join :: "string \<Rightarrow> string list \<Rightarrow> string" where
  "join sep [] = []"
| "join sep [x] = x"
| "join sep (x # y # ys) = x @ sep @ join sep (y # ys)"

subsection \<open>The arguments of \<^verbatim>\<open>search_recipes\<close>\<close>

text \<open>
  The nine parameters of \<^verbatim>\<open>search_recipes\<close>, in the order of its signature. The
  numbers come from integer sliders, the ids from the id columns of the lookup tables,
  the category from the select box (\<^verbatim>\<open>None\<close> when the page passes no category).
\<close>

record filter_state =
  cal_min :: int
  cal_max :: int
  carb_target :: int
  fat_target :: int
  prot_target :: int
  margin :: int
  category :: "string option"
  exclude_allergen_ids :: "int list"
  diet_label_ids :: "int list"

subsection \<open>The query text\<close>

text \<open>Lines 68 to 77: the allergen exclusion clause.\<close>

definition allergen_clause :: "int list \<Rightarrow> string" where
  "allergen_clause ids =
     (if ids \<noteq> [] \<and> length ids > 0 then
        concat [nl,
          ''            AND NOT EXISTS ('', nl,
          ''                SELECT 1 FROM recipe_allergens ra'', nl,
          ''                WHERE ra.recipe_id = r.recipe_id'', nl,
          ''                AND ra.allergen_id IN ('', join '','' (map str_int ids), '')'', nl,
          ''            )'', nl,
          ''        '']
      else [])"

text \<open>
  Lines 80 to 82: the category clause. Python's \<^verbatim>\<open>if category and ...\<close> is false for
  \<^verbatim>\<open>None\<close> and for the empty string.
\<close>

definition category_clause :: "string option \<Rightarrow> string" where
  "category_clause cat =
     (case cat of
        None \<Rightarrow> []
      | Some c \<Rightarrow>
          if c \<noteq> [] \<and> c \<noteq> ''All Categories''
          then concat [''AND LOWER(c.category_name) = LOWER('', [squote], c, [squote], '')'']
          else [])"

text \<open>Lines 85 to 94: the diet label clause.\<close>

definition diet_clause :: "int list \<Rightarrow> string" where
  "diet_clause ids =
     (if ids \<noteq> [] \<and> length ids > 0 then
        concat [nl,
          ''            AND EXISTS ('', nl,
          ''                SELECT 1 FROM recipe_diet_labels rdl'', nl,
          ''                WHERE rdl.recipe_id = r.recipe_id'', nl,
          ''                AND rdl.label_id IN ('', join '','' (map str_int ids), '')'', nl,
          ''            )'', nl,
          ''        '']
      else [])"

text \<open>Lines 97 to 119: the statement, as the list of the pieces of the f-string.\<close>

definition select_from :: string where
  "select_from = concat [nl,
     ''    SELECT '', nl,
     ''        v.recipe_id,'', nl,
     ''        v.name,'', nl,
     ''        v.url,'', nl,
     ''        v.calories,'', nl,
     ''        v.pct_carbs,'', nl,
     ''        v.pct_fat,'', nl,
     ''        v.pct_protein,'', nl,
     ''        c.category_name,'', nl,
     ''        r.rating'', nl,
     ''    FROM recipe_macro_pct v'', nl,
     ''    JOIN recipes r ON r.recipe_id = v.recipe_id'', nl,
     ''    LEFT JOIN categories c ON c.category_id = r.category_id'', nl]"

definition query_pieces :: "filter_state \<Rightarrow> string list" where
  "query_pieces f =
     [select_from,
      ''    WHERE v.calories BETWEEN '', str_int (cal_min f), '' AND '', str_int (cal_max f), nl,
      ''      AND v.pct_carbs BETWEEN '', str_int (carb_target f - margin f),
        '' AND '', str_int (carb_target f + margin f), nl,
      ''      AND v.pct_fat BETWEEN '', str_int (fat_target f - margin f),
        '' AND '', str_int (fat_target f + margin f), nl,
      ''      AND v.pct_protein BETWEEN '', str_int (prot_target f - margin f),
        '' AND '', str_int (prot_target f + margin f), nl,
      ''      '', category_clause (category f), nl,
      ''      '', allergen_clause (exclude_allergen_ids f), nl,
      ''      '', diet_clause (diet_label_ids f), nl,
      ''    ORDER BY v.calories'', nl,
      ''    '']"

definition query_text :: "filter_state \<Rightarrow> string" where
  "query_text f = concat (query_pieces f)"


section \<open>The engine and \<^verbatim>\<open>search_recipes\<close>\<close>

subsection \<open>Data frames\<close>

text \<open>
  A data frame is its column labels and its rows of cells; \<open>NA\<close> is the missing value
  (\<^verbatim>\<open>None\<close>, \<^verbatim>\<open>NaN\<close>). A number with a fraction is an IEEE double in the program; a
  finite double is a rational number, and \<open>NumCell\<close> holds it. \<^verbatim>\<open>pd.DataFrame()\<close> has
  no column and no row.
\<close>

datatype cell = IntCell int | NumCell rat | StrCell string | NA

record dataframe =
  df_columns :: "string list"
  df_rows :: "cell list list"

definition empty_frame :: dataframe where
  "empty_frame = \<lparr>df_columns = [], df_rows = []\<rparr>"

subsection \<open>The call of the engine\<close>

text \<open>
  \<^verbatim>\<open>pd.read_sql(query, engine)\<close> reads the module-level name \<^verbatim>\<open>engine\<close>. The file
  binds that name nowhere (\<^verbatim>\<open>get_database_connection\<close> builds an engine and returns it,
  and is never called), so the engine is a parameter here: an argument of every function that
  reads it.

  The program hands the engine a text and nothing else. What the engine makes of the text is
  not part of the program, so both outcomes of the call are parameters: \<open>fault\<close> gives the
  message of the exception when the call raises on a text (connection lost, timeout, text
  rejected, or the name \<^verbatim>\<open>engine\<close> not bound, which is raised inside the same
  \<^verbatim>\<open>try\<close>), and \<open>answer\<close> gives the frame that \<^verbatim>\<open>pd.read_sql\<close> builds from the
  rows the engine returns for the text otherwise.
\<close>

record engine =
  fault :: "string \<Rightarrow> string option"
  answer :: "string \<Rightarrow> dataframe"

definition read_sql :: "engine \<Rightarrow> string \<Rightarrow> string + dataframe" where
  "read_sql eng query =
     (case fault eng query of
        Some e \<Rightarrow> Inl e
      | None \<Rightarrow> Inr (answer eng query))"

text \<open>What the page shows: the calls of the widget library, in order.\<close>

datatype st_event =
    St_error string
  | St_success string
  | St_warning string
  | St_markdown string
  | St_dataframe dataframe
  | St_download_button string string string string

text \<open>Lines 121 to 126. The result is the returned frame and what was shown.\<close>

definition search_recipes :: "engine \<Rightarrow> filter_state \<Rightarrow> dataframe \<times> st_event list" where
  "search_recipes eng f =
     (case read_sql eng (query_text f) of
        Inr df \<Rightarrow> (df, [])
      | Inl e \<Rightarrow> (empty_frame, [St_error (''Query failed: '' @ e)]))"


section \<open>The result presenter\<close>

subsection \<open>Operations on frames\<close>

datatype py_error = KeyError string | ValueError | TypeError

definition bind :: "py_error + 'a \<Rightarrow> ('a \<Rightarrow> py_error + 'b) \<Rightarrow> py_error + 'b" where
  "bind m k = (case m of Inl e \<Rightarrow> Inl e | Inr x \<Rightarrow> k x)"

fun map_result :: "('a \<Rightarrow> py_error + 'b) \<Rightarrow> 'a list \<Rightarrow> py_error + 'b list" where
  "map_result g [] = Inr []"
| "map_result g (x # xs) =
     (case g x of
        Inl e \<Rightarrow> Inl e
      | Inr y \<Rightarrow> (case map_result g xs of Inl e \<Rightarrow> Inl e | Inr ys \<Rightarrow> Inr (y # ys)))"

text \<open>The cell of a row at a position; a row too short has a missing value there.\<close>

definition cell_at :: "cell list \<Rightarrow> nat \<Rightarrow> cell" where
  "cell_at row i = (if i < length row then row ! i else NA)"

text \<open>The positions of a label among the labels, counted from \<open>k\<close>, and the first of them.\<close>

fun positions_from :: "nat \<Rightarrow> string list \<Rightarrow> string \<Rightarrow> nat list" where
  "positions_from k [] n = []"
| "positions_from k (l # ls) n =
     (if l = n then k # positions_from (Suc k) ls n else positions_from (Suc k) ls n)"

fun col_index :: "string list \<Rightarrow> string \<Rightarrow> nat option" where
  "col_index [] n = None"
| "col_index (l # ls) n = (if l = n then Some 0 else map_option Suc (col_index ls n))"

text \<open>
  \<^verbatim>\<open>df[[n1, n2, ...]]\<close>: a new frame with, for each name in turn, every column of that
  label; a name that labels no column raises.
\<close>

definition select_columns :: "string list \<Rightarrow> dataframe \<Rightarrow> py_error + dataframe" where
  "select_columns names df =
     bind (map_result (\<lambda>n. case positions_from 0 (df_columns df) n of
                               [] \<Rightarrow> Inl (KeyError n)
                             | ps \<Rightarrow> Inr (map (\<lambda>i. (n, i)) ps)) names)
       (\<lambda>found. Inr \<lparr>df_columns = map fst (concat found),
                     df_rows = map (\<lambda>row. map (\<lambda>p. cell_at row (snd p)) (concat found))
                                 (df_rows df)\<rparr>)"

text \<open>\<^verbatim>\<open>df.columns = names\<close>: a list of another length raises.\<close>

definition set_columns :: "string list \<Rightarrow> dataframe \<Rightarrow> py_error + dataframe" where
  "set_columns names df =
     (if length names = length (df_columns df) then Inr (df\<lparr>df_columns := names\<rparr>)
      else Inl ValueError)"

text \<open>
  \<^verbatim>\<open>df[n] = g(df[n])\<close> for an elementwise \<open>g\<close>: the column is read, \<open>g\<close> is applied
  to each of its cells, and the column is written back.
\<close>

definition assign_column :: "string \<Rightarrow> (cell \<Rightarrow> py_error + cell) \<Rightarrow> dataframe \<Rightarrow> py_error + dataframe" where
  "assign_column n g df =
     (case col_index (df_columns df) n of
        None \<Rightarrow> Inl (KeyError n)
      | Some i \<Rightarrow>
          bind (map_result (\<lambda>row. g (cell_at row i)) (df_rows df))
            (\<lambda>col. Inr (df\<lparr>df_rows := map (\<lambda>(row, x). row[i := x]) (zip (df_rows df) col)\<rparr>)))"

subsection \<open>Numbers\<close>

text \<open>
  The arithmetic of doubles is not modelled. \<^verbatim>\<open>Series.round(d)\<close> on a double and the
  text that \<^verbatim>\<open>to_csv\<close> prints for a double are the library's, and parameters here:
  \<open>series_round\<close> and \<open>float_repr\<close>. So is \<open>quotes_cr\<close>: whether the CSV writer
  puts a field between double quotes for a carriage return in it, which depends on the
  version of the writer. On a cell, \<^verbatim>\<open>round\<close> leaves a missing value missing and an
  integer as it is, and has no meaning for a string; \<^verbatim>\<open>astype(int)\<close> drops the fraction
  of a number and raises on a missing value.
\<close>

record library =
  series_round :: "nat \<Rightarrow> rat \<Rightarrow> rat"
  float_repr :: "rat \<Rightarrow> string"
  quotes_cr :: bool

definition round_cell :: "library \<Rightarrow> nat \<Rightarrow> cell \<Rightarrow> py_error + cell" where
  "round_cell lib d c =
     (case c of
        NumCell x \<Rightarrow> Inr (NumCell (series_round lib d x))
      | IntCell i \<Rightarrow> Inr (IntCell i)
      | NA \<Rightarrow> Inr NA
      | StrCell s \<Rightarrow> Inl TypeError)"

definition trunc_int :: "rat \<Rightarrow> int" where
  "trunc_int x = (if 0 \<le> x then \<lfloor>x\<rfloor> else \<lceil>x\<rceil>)"

definition astype_int :: "cell \<Rightarrow> py_error + cell" where
  "astype_int c =
     (case c of
        NumCell x \<Rightarrow> Inr (IntCell (trunc_int x))
      | IntCell i \<Rightarrow> Inr (IntCell i)
      | NA \<Rightarrow> Inl ValueError
      | StrCell s \<Rightarrow> Inl ValueError)"

subsection \<open>The display frame\<close>

text \<open>
  Frames are objects: the heap is the list of the frames allocated so far, and a variable
  holds the position of its frame. A new frame goes to the end; an assignment to a column or
  to the labels changes the frame in place.
\<close>

type_synonym heap = "dataframe list"

definition alloc :: "heap \<Rightarrow> dataframe \<Rightarrow> heap \<times> nat" where
  "alloc h df = (h @ [df], length h)"

definition in_place :: "nat \<Rightarrow> (dataframe \<Rightarrow> py_error + dataframe) \<Rightarrow> heap \<Rightarrow> py_error + heap" where
  "in_place a g h = bind (g (h ! a)) (\<lambda>df. Inr (h[a := df]))"

text \<open>
  Lines 284 to 300, with \<^verbatim>\<open>results_df\<close> at position \<open>a\<close>: the selection is a new
  frame, its copy is another, and \<^verbatim>\<open>display_df\<close> is the copy.
\<close>

definition prepare_display :: "library \<Rightarrow> heap \<Rightarrow> nat \<Rightarrow> py_error + heap \<times> nat" where
  "prepare_display lib h a =
     bind (select_columns [''name'', ''calories'', ''pct_carbs'', ''pct_fat'', ''pct_protein'',
                           ''category_name'', ''rating'', ''url''] (h ! a))
     (\<lambda>sel. let (h1, s) = alloc h sel;
                (h2, d) = alloc h1 (h1 ! s)
      in bind (in_place d (set_columns [''Recipe Name'', ''Calories'', ''Carbs %'', ''Fat %'',
                                        ''Protein %'', ''Category'', ''Rating'', ''URL'']) h2)
        (\<lambda>h3. bind (in_place d (assign_column ''Carbs %'' (round_cell lib 1)) h3)
        (\<lambda>h4. bind (in_place d (assign_column ''Fat %'' (round_cell lib 1)) h4)
        (\<lambda>h5. bind (in_place d (assign_column ''Protein %'' (round_cell lib 1)) h5)
        (\<lambda>h6. bind (in_place d (assign_column ''Calories''
                                    (\<lambda>c. bind (round_cell lib 0 c) astype_int)) h6)
        (\<lambda>h7. bind (in_place d (assign_column ''Rating'' (round_cell lib 2)) h7)
        (\<lambda>h8. Inr (h8, d))))))))"

text \<open>
  Lines 284 to 300 once more, as a function of the frame of \<^verbatim>\<open>results_df\<close>: the frame
  that \<^verbatim>\<open>display_df\<close> names in the end.
\<close>

definition display_steps :: "library \<Rightarrow> dataframe \<Rightarrow> py_error + dataframe" where
  "display_steps lib df =
     bind (set_columns [''Recipe Name'', ''Calories'', ''Carbs %'', ''Fat %'',
                        ''Protein %'', ''Category'', ''Rating'', ''URL''] df)
     (\<lambda>d3. bind (assign_column ''Carbs %'' (round_cell lib 1) d3)
     (\<lambda>d4. bind (assign_column ''Fat %'' (round_cell lib 1) d4)
     (\<lambda>d5. bind (assign_column ''Protein %'' (round_cell lib 1) d5)
     (\<lambda>d6. bind (assign_column ''Calories'' (\<lambda>c. bind (round_cell lib 0 c) astype_int) d6)
     (\<lambda>d7. assign_column ''Rating'' (round_cell lib 2) d7)))))"

definition display_df :: "library \<Rightarrow> dataframe \<Rightarrow> py_error + dataframe" where
  "display_df lib results =
     bind (select_columns [''name'', ''calories'', ''pct_carbs'', ''pct_fat'', ''pct_protein'',
                           ''category_name'', ''rating'', ''url''] results)
       (display_steps lib)"

subsection \<open>The export\<close>

text \<open>
  \<^verbatim>\<open>to_csv(index=False)\<close> hands the labels and then each row to a CSV writer: the fields
  of a record separated by commas, each record ended by the line separator of the platform
  (a line feed, as on a POSIX system), a field with a comma, a double quote or a line feed in
  it (or a carriage return, for a writer that quotes it) written between double quotes with
  its double quotes doubled, a missing value written as nothing, and a record of one empty
  field written as two double quotes.
\<close>

definition cell_text :: "library \<Rightarrow> cell \<Rightarrow> string" where
  "cell_text lib c =
     (case c of
        IntCell i \<Rightarrow> str_int i
      | NumCell x \<Rightarrow> float_repr lib x
      | StrCell s \<Rightarrow> s
      | NA \<Rightarrow> [])"

definition csv_field :: "library \<Rightarrow> string \<Rightarrow> string" where
  "csv_field lib s =
     (if list_ex (\<lambda>ch. ch \<in> set [CHR '','', CHR 0x22, CHR 0x0A] \<or>
                       (quotes_cr lib \<and> ch = CHR 0x0D)) s
      then [CHR 0x22] @ concat (map (\<lambda>ch. if ch = CHR 0x22 then [ch, ch] else [ch]) s) @ [CHR 0x22]
      else s)"

definition csv_line :: "library \<Rightarrow> string list \<Rightarrow> string" where
  "csv_line lib fs =
     (if fs = [[]] then [CHR 0x22, CHR 0x22]
      else join '','' (map (csv_field lib) fs)) @ nl"

definition to_csv :: "library \<Rightarrow> dataframe \<Rightarrow> string" where
  "to_csv lib df =
     concat (map (csv_line lib) (df_columns df # map (map (cell_text lib)) (df_rows df)))"

subsection \<open>The page\<close>

text \<open>
  Lines 266 to 336. \<open>w\<close> holds the values of the widgets, its category the string of the
  select box; the page passes no category for the entry \<^verbatim>\<open>All Categories\<close>. Of the
  call of \<^verbatim>\<open>st.dataframe\<close> the frame is kept (the column configuration is constant),
  of the call of \<^verbatim>\<open>st.download_button\<close> the label, the data, the file name and the
  MIME type.
\<close>

definition call_args :: "filter_state \<Rightarrow> filter_state" where
  "call_args w =
     w\<lparr>category :=
         (case category w of
            None \<Rightarrow> None
          | Some s \<Rightarrow> if s \<noteq> ''All Categories'' then Some s else None)\<rparr>"

definition file_name :: "filter_state \<Rightarrow> string" where
  "file_name w =
     concat [''recipe_results_'', str_int (cal_min w), ''-'', str_int (cal_max w), ''cal.csv'']"

definition no_results_help :: string where
  "no_results_help = concat [nl,
     ''    - Increase the margin of error'', nl,
     ''    - Widen the calorie range'', nl,
     ''    - Remove diet preferences'', nl,
     ''    - Remove allergen exclusions'', nl,
     ''    - Select '', [squote], ''All Categories'', [squote], nl,
     ''    '']"

definition main_content ::
  "library \<Rightarrow> engine \<Rightarrow> filter_state \<Rightarrow> py_error + st_event list" where
  "main_content lib eng w =
     (let (results, shown) = search_recipes eng (call_args w)
      in if length (df_rows results) > 0 then
           bind (prepare_display lib [results] 0)
             (\<lambda>(h, d). Inr (shown @
                [St_success (str_int (int (length (df_rows results))) @
                             '' recipes match your criteria''),
                 St_dataframe (h ! d),
                 St_download_button ''Download Results as CSV'' (to_csv lib (h ! d))
                   (file_name w) ''text/csv'']))
         else
           Inr (shown @
             [St_warning ''No recipes found matching your criteria. Try adjusting your filters:'',
              St_markdown no_results_help]))"


section \<open>The frame of a result of the statement\<close>

text \<open>
  When the engine executes the text as the one statement it was written to be, the frame
  that \<^verbatim>\<open>pd.read_sql\<close> builds has the nine names of the select list as labels, and in
  each row an integer id, two strings, four numbers, a category name or nothing and a rating
  or nothing.
\<close>

record result_row =
  recipe_id :: int
  name :: string
  url :: string
  calories :: rat
  pct_carbs :: rat
  pct_fat :: rat
  pct_protein :: rat
  category_name :: "string option"
  rating :: "rat option"

definition cell_of_option :: "('a \<Rightarrow> cell) \<Rightarrow> 'a option \<Rightarrow> cell" where
  "cell_of_option mk x = (case x of None \<Rightarrow> NA | Some y \<Rightarrow> mk y)"

definition cells_of_row :: "result_row \<Rightarrow> cell list" where
  "cells_of_row r =
     [IntCell (recipe_id r), StrCell (name r), StrCell (url r), NumCell (calories r),
      NumCell (pct_carbs r), NumCell (pct_fat r), NumCell (pct_protein r),
      cell_of_option StrCell (category_name r), cell_of_option NumCell (rating r)]"

definition frame_of_rows :: "result_row list \<Rightarrow> dataframe" where
  "frame_of_rows rs =
     \<lparr>df_columns = [''recipe_id'', ''name'', ''url'', ''calories'', ''pct_carbs'', ''pct_fat'',
                    ''pct_protein'', ''category_name'', ''rating''],
      df_rows = map cells_of_row rs\<rparr>"

text \<open>What lines 284 to 300 make of such a frame: the selection, and the display frame.\<close>

definition selected_cells :: "result_row \<Rightarrow> cell list" where
  "selected_cells r =
     [StrCell (name r), NumCell (calories r), NumCell (pct_carbs r), NumCell (pct_fat r),
      NumCell (pct_protein r), cell_of_option StrCell (category_name r),
      cell_of_option NumCell (rating r), StrCell (url r)]"

definition selected_frame :: "result_row list \<Rightarrow> dataframe" where
  "selected_frame rs =
     \<lparr>df_columns = [''name'', ''calories'', ''pct_carbs'', ''pct_fat'', ''pct_protein'',
                    ''category_name'', ''rating'', ''url''],
      df_rows = map selected_cells rs\<rparr>"

definition display_cells :: "library \<Rightarrow> result_row \<Rightarrow> cell list" where
  "display_cells lib r =
     [StrCell (name r), IntCell (trunc_int (series_round lib 0 (calories r))),
      NumCell (series_round lib 1 (pct_carbs r)), NumCell (series_round lib 1 (pct_fat r)),
      NumCell (series_round lib 1 (pct_protein r)), cell_of_option StrCell (category_name r),
      cell_of_option NumCell (map_option (series_round lib 2) (rating r)), StrCell (url r)]"

definition display_frame :: "library \<Rightarrow> result_row list \<Rightarrow> dataframe" where
  "display_frame lib rs =
     \<lparr>df_columns = [''Recipe Name'', ''Calories'', ''Carbs %'', ''Fat %'', ''Protein %'',
                    ''Category'', ''Rating'', ''URL''],
      df_rows = map (display_cells lib) rs\<rparr>"


section \<open>What the specification asks\<close>

subsection \<open>Reading a CSV text\<close>

text \<open>
  The records of a CSV text and the fields of each: a comma outside double quotes ends a
  field, a line feed outside double quotes ends a record, a field that begins with a double
  quote runs to the next double quote that is not doubled, and a doubled double quote inside
  it is one double quote. This reader is independent of the writer above.
\<close>

datatype csv_state = Plain | Quoted | QuoteSeen

fun csv_scan :: "csv_state \<Rightarrow> string \<Rightarrow> string list \<Rightarrow> string \<Rightarrow> string list list" where
  "csv_scan st fld rcd [] =
     (if st = Plain \<and> fld = [] \<and> rcd = [] then [] else [rev (rev fld # rcd)])"
| "csv_scan Plain fld rcd (c # cs) =
     (if c = CHR '','' then csv_scan Plain [] (rev fld # rcd) cs
      else if c = CHR 0x0A then rev (rev fld # rcd) # csv_scan Plain [] [] cs
      else if c = CHR 0x22 \<and> fld = [] then csv_scan Quoted [] rcd cs
      else csv_scan Plain (c # fld) rcd cs)"
| "csv_scan Quoted fld rcd (c # cs) =
     (if c = CHR 0x22 then csv_scan QuoteSeen fld rcd cs
      else csv_scan Quoted (c # fld) rcd cs)"
| "csv_scan QuoteSeen fld rcd (c # cs) =
     (if c = CHR 0x22 then csv_scan Quoted (c # fld) rcd cs
      else if c = CHR '','' then csv_scan Plain [] (rev fld # rcd) cs
      else if c = CHR 0x0A then rev (rev fld # rcd) # csv_scan Plain [] [] cs
      else csv_scan Plain (c # fld) rcd cs)"

definition parse_csv :: "string \<Rightarrow> string list list" where
  "parse_csv s = csv_scan Plain [] [] s"

subsection \<open>Letter case\<close>





section \<open>Example data\<close>

text \<open>Three rows of a result, and the frame of two of them as the answer of an engine.\<close>

definition pie_row :: result_row where
  "pie_row =
     \<lparr>recipe_id = 1, name = ''Apple Pie'', url = ''http://a/1'', calories = 650,
      pct_carbs = 52, pct_fat = 28, pct_protein = 20,
      category_name = Some ''Dessert'', rating = Some (1783 / 400)\<rparr>"

definition omelette_row :: result_row where
  "omelette_row =
     \<lparr>recipe_id = 2, name = ''Omelette'', url = ''http://a/2'', calories = 1201 / 4,
      pct_carbs = 4817 / 100, pct_fat = 3225 / 100, pct_protein = 1958 / 100,
      category_name = Some ''Breakfast'', rating = None\<rparr>"

definition stew_row :: result_row where
  "stew_row =
     \<lparr>recipe_id = 3, name = ''Stew, beef'', url = ''http://a/3'', calories = 450,
      pct_carbs = 101 / 2, pct_fat = 30, pct_protein = 39 / 2,
      category_name = None, rating = Some (9 / 2)\<rparr>"

text \<open>The default positions of the widgets.\<close>

definition demo_filter :: filter_state where
  "demo_filter =
     \<lparr>cal_min = 100, cal_max = 700, carb_target = 50, fat_target = 30, prot_target = 20,
      margin = 5, category = None, exclude_allergen_ids = [], diet_label_ids = []\<rparr>"

text \<open>The same with a category, two excluded allergens and a required diet label.\<close>

definition allergy_filter :: filter_state where
  "allergy_filter =
     demo_filter\<lparr>category := Some ''Dessert'', exclude_allergen_ids := [7, 12],
                 diet_label_ids := [3]\<rparr>"

text \<open>An engine that answers, and one whose connection is lost.\<close>

definition demo_engine :: engine where
  "demo_engine = \<lparr>fault = (\<lambda>q. None), answer = (\<lambda>q. frame_of_rows [stew_row, pie_row])\<rparr>"

definition down_engine :: engine where
  "down_engine = \<lparr>fault = (\<lambda>q. Some ''connection lost''), answer = (\<lambda>q. empty_frame)\<rparr>"

text \<open>A library that rounds half up and prints every number as a star.\<close>

definition demo_lib :: library where
  "demo_lib =
     \<lparr>series_round = (\<lambda>d x. of_int \<lfloor>x * 10 ^ d + 1 / 2\<rfloor> / 10 ^ d),
      float_repr = (\<lambda>x. ''*''), quotes_cr = True\<rparr>"

subsection \<open>Categories with a single quote\<close>








section \<open>Properties of the query text\<close>

subsection \<open>Rendered numbers and id lists\<close>

lemma str_nat_nonempty: "str_nat n \<noteq> []"
  by (subst str_nat.simps) simp

lemma str_int_nonempty: "str_int i \<noteq> []"
  by (simp add: str_int_def str_nat_nonempty)

lemma join_Cons: "\<exists>rest. join sep (x # xs) = x @ rest"
  by (cases xs) simp_all

lemma join_nonempty: "ids \<noteq> [] \<Longrightarrow> join sep (map str_int ids) \<noteq> []"
proof (cases ids)
  case Nil
  assume "ids \<noteq> []"
  with Nil show ?thesis by simp
next
  case (Cons i rest)
  obtain r where "join sep (str_int i # map str_int rest) = str_int i @ r"
    using join_Cons by blast
  with Cons show ?thesis by (simp add: str_int_nonempty)
qed

lemma sublist_concat: "x \<in> set xs \<Longrightarrow> sublist x (concat xs)"
proof -
  assume "x \<in> set xs"
  then obtain ys zs where "xs = ys @ x # zs" by (meson split_list)
  then have "concat xs = concat ys @ x @ concat zs" by simp
  then show ?thesis unfolding sublist_def by blast
qed

lemma digit_mem: "k < 10 \<Longrightarrow> ''0123456789'' ! k \<in> set ''0123456789''"
  by (rule nth_mem) simp

lemma str_nat_chars: "set (str_nat n) \<subseteq> set ''0123456789''"
proof (induction n rule: str_nat.induct)
  case (1 n)
  define D where "D = ''0123456789''"
  have dm: "\<And>k. k < 10 \<Longrightarrow> D ! k \<in> set D" unfolding D_def by (rule digit_mem)
  have st: "\<And>m. str_nat m = (if m < 10 then [D ! m] else str_nat (m div 10) @ [D ! (m mod 10)])"
    unfolding D_def by (rule str_nat.simps)
  have ih: "\<not> n < 10 \<Longrightarrow> set (str_nat (n div 10)) \<subseteq> set D"
    unfolding D_def by (rule 1)
  have "set (str_nat n) \<subseteq> set D"
  proof (cases "n < 10")
    case True
    then have "str_nat n = [D ! n]" by (subst st) simp
    then show ?thesis using dm[OF True] by simp
  next
    case False
    have e: "str_nat n = str_nat (n div 10) @ [D ! (n mod 10)]"
      using False by (subst st) simp
    have "n mod 10 < 10" by simp
    from dm[OF this] ih[OF False] show ?thesis unfolding e by simp
  qed
  then show ?case unfolding D_def .
qed

lemma join_chars: "ch \<in> set (join sep xs) \<Longrightarrow> ch \<in> set sep \<or> (\<exists>x\<in>set xs. ch \<in> set x)"
  by (induction sep xs rule: join.induct) auto

lemma str_int_chars: "ch \<in> set (str_int i) \<Longrightarrow> ch = CHR ''-'' \<or> ch \<in> set ''0123456789''"
proof -
  assume a: "ch \<in> set (str_int i)"
  define D where "D = ''0123456789''"
  have n: "\<And>m. set (str_nat m) \<subseteq> set D" unfolding D_def by (rule str_nat_chars)
  have "ch = CHR ''-'' \<or> ch \<in> set D"
  proof (cases "i < 0")
    case True
    then have "str_int i = CHR ''-'' # str_nat (nat (- i))" by (simp add: str_int_def)
    with a have "ch = CHR ''-'' \<or> ch \<in> set (str_nat (nat (- i)))" by simp
    with n[of "nat (- i)"] show ?thesis by blast
  next
    case False
    then have "str_int i = str_nat (nat i)" by (simp add: str_int_def)
    with a have "ch \<in> set (str_nat (nat i))" by simp
    with n[of "nat i"] show ?thesis by blast
  qed
  then show ?thesis unfolding D_def .
qed

lemma id_list_chars:
  "ch \<in> set (join '','' (map str_int ids)) \<Longrightarrow>
     ch = CHR '','' \<or> ch = CHR ''-'' \<or> ch \<in> set ''0123456789''"
proof -
  assume "ch \<in> set (join '','' (map str_int ids))"
  from join_chars[OF this] consider "ch \<in> set '',''" | i where "ch \<in> set (str_int i)"
    by fastforce
  then show ?thesis
  proof cases
    case 1 then show ?thesis by simp
  next
    case 2 from str_int_chars[OF this] show ?thesis by blast
  qed
qed

lemma id_list_no_paren:
  "CHR ''('' \<notin> set (join '','' (map str_int ids))" "CHR '')'' \<notin> set (join '','' (map str_int ids))"
proof -
  show "CHR ''('' \<notin> set (join '','' (map str_int ids))"
  proof
    assume "CHR ''('' \<in> set (join '','' (map str_int ids))"
    from id_list_chars[OF this] show False by simp
  qed
  show "CHR '')'' \<notin> set (join '','' (map str_int ids))"
  proof
    assume "CHR '')'' \<in> set (join '','' (map str_int ids))"
    from id_list_chars[OF this] show False by simp
  qed
qed

lemma pair_split:
  "[a, b] = xs1 @ xs2 \<Longrightarrow>
     (xs1 = [] \<and> xs2 = [a, b]) \<or> (xs1 = [a] \<and> xs2 = [b]) \<or> (xs1 = [a, b] \<and> xs2 = [])"
proof (cases xs1)
  case Nil
  assume "[a, b] = xs1 @ xs2"
  with Nil show ?thesis by simp
next
  case (Cons x xs1')
  assume e: "[a, b] = xs1 @ xs2"
  with Cons have h: "x = a" "[b] = xs1' @ xs2" by simp_all
  show ?thesis
  proof (cases xs1')
    case Nil
    with h Cons show ?thesis by simp
  next
    case (Cons y zs)
    with h have "y = b" "zs = []" "xs2 = []" by simp_all
    with Cons \<open>xs1 = x # xs1'\<close> h show ?thesis by simp
  qed
qed

lemma sublist_pair_append:
  assumes "sublist [a, b] (xs @ ys)"
  shows "sublist [a, b] xs \<or> sublist [a, b] ys \<or> (xs \<noteq> [] \<and> ys \<noteq> [] \<and> last xs = a \<and> hd ys = b)"
proof -
  from assms have "sublist [a, b] xs \<or> sublist [a, b] ys \<or>
      (\<exists>xs1 xs2. [a, b] = xs1 @ xs2 \<and> suffix xs1 xs \<and> prefix xs2 ys)"
    by (simp only: sublist_append)
  moreover
  { fix xs1 xs2 assume e: "[a, b] = xs1 @ xs2" and s: "suffix xs1 xs" and p: "prefix xs2 ys"
    from pair_split[OF e] have ?thesis
    proof (elim disjE conjE)
      assume "xs1 = []" "xs2 = [a, b]"
      with p obtain r where "ys = [a, b] @ r" unfolding prefix_def by blast
      then have "sublist [a, b] ys" by (simp only: sublist_append_rightI)
      then show ?thesis by blast
    next
      assume h: "xs1 = [a]" "xs2 = [b]"
      from s h obtain l where "xs = l @ [a]" unfolding suffix_def by blast
      moreover from p h obtain r where "ys = [b] @ r" unfolding prefix_def by blast
      ultimately show ?thesis by simp
    next
      assume "xs1 = [a, b]" "xs2 = []"
      with s obtain l where "xs = l @ [a, b]" unfolding suffix_def by blast
      then have "sublist [a, b] xs" by (simp only: sublist_append_leftI)
      then show ?thesis by blast
    qed }
  ultimately show ?thesis by blast
qed

lemma sublist_pair_mem: "sublist [a, b] J \<Longrightarrow> a \<in> set J"
proof -
  assume "sublist [a, b] J"
  then obtain ps ss where "J = ps @ [a, b] @ ss" unfolding sublist_def by blast
  then show ?thesis by simp
qed

lemma sublist_pair_mid:
  assumes s: "sublist [a, b] (P @ J @ S)" and a: "a \<notin> set J" and b: "b \<notin> set J" and j: "J \<noteq> []"
  shows "sublist [a, b] P \<or> sublist [a, b] S"
proof -
  have js: "J @ S \<noteq> []" "hd (J @ S) = hd J" using j by simp_all
  from sublist_pair_append[OF s] have
    "sublist [a, b] P \<or> sublist [a, b] (J @ S) \<or> hd (J @ S) = b" by blast
  moreover have "hd (J @ S) \<noteq> b"
  proof
    assume "hd (J @ S) = b"
    with js hd_in_set[OF j] b show False by simp
  qed
  moreover
  { assume m: "sublist [a, b] (J @ S)"
    from sublist_pair_append[OF m] have "sublist [a, b] J \<or> sublist [a, b] S \<or> last J = a"
      by blast
    moreover have "\<not> sublist [a, b] J"
    proof
      assume "sublist [a, b] J"
      from sublist_pair_mem[OF this] a show False by simp
    qed
    moreover have "last J \<noteq> a"
    proof
      assume "last J = a"
      with last_in_set[OF j] a show False by simp
    qed
    ultimately have "sublist [a, b] S" by simp }
  ultimately show ?thesis by blast
qed

lemma sublist_two_of_longer: "sublist ''IN ()'' xs \<Longrightarrow> sublist ''()'' xs"
proof -
  assume "sublist ''IN ()'' xs"
  then obtain ps ss where "xs = ps @ ''IN ()'' @ ss" unfolding sublist_def by blast
  then have "xs = (ps @ ''IN '') @ ''()'' @ ss" by simp
  then show ?thesis by (simp only: sublist_appendI)
qed

lemma allergen_clause_no_empty_in: "\<not> sublist ''IN ()'' (allergen_clause ids)"
proof (cases "ids = []")
  case True
  then show ?thesis by (simp add: allergen_clause_def)
next
  case False
  define P where "P = concat [nl,
          ''            AND NOT EXISTS ('', nl,
          ''                SELECT 1 FROM recipe_allergens ra'', nl,
          ''                WHERE ra.recipe_id = r.recipe_id'', nl,
          ''                AND ra.allergen_id IN ('']"
  define S where "S = concat ['')'', nl, ''            )'', nl, ''        '']"
  define J where "J = join '','' (map str_int ids)"
  have e: "allergen_clause ids = P @ J @ S"
    using False by (simp add: allergen_clause_def P_def S_def J_def)
  have p: "\<not> sublist ''()'' P" unfolding P_def by code_simp
  have s: "\<not> sublist ''()'' S" unfolding S_def by code_simp
  have j: "J \<noteq> []" unfolding J_def by (rule join_nonempty[OF False])
  have "\<not> sublist ''()'' (P @ J @ S)"
    using sublist_pair_mid[of "CHR ''(''" "CHR '')''" P J S] p s j id_list_no_paren[of ids]
    unfolding J_def by blast
  then show ?thesis unfolding e using sublist_two_of_longer by blast
qed

subsection \<open>The optional clauses\<close>

lemma diet_clause_no_empty_in: "\<not> sublist ''IN ()'' (diet_clause ids)"
proof (cases "ids = []")
  case True
  then show ?thesis by (simp add: diet_clause_def)
next
  case False
  define P where "P = concat [nl,
          ''            AND EXISTS ('', nl,
          ''                SELECT 1 FROM recipe_diet_labels rdl'', nl,
          ''                WHERE rdl.recipe_id = r.recipe_id'', nl,
          ''                AND rdl.label_id IN ('']"
  define S where "S = concat ['')'', nl, ''            )'', nl, ''        '']"
  define J where "J = join '','' (map str_int ids)"
  have e: "diet_clause ids = P @ J @ S"
    using False by (simp add: diet_clause_def P_def S_def J_def)
  have p: "\<not> sublist ''()'' P" unfolding P_def by code_simp
  have s: "\<not> sublist ''()'' S" unfolding S_def by code_simp
  have j: "J \<noteq> []" unfolding J_def by (rule join_nonempty[OF False])
  have "\<not> sublist ''()'' (P @ J @ S)"
    using sublist_pair_mid[of "CHR ''(''" "CHR '')''" P J S] p s j id_list_no_paren[of ids]
    unfolding J_def by blast
  then show ?thesis unfolding e using sublist_two_of_longer by blast
qed

lemma allergen_clause_in_list:
  "ids \<noteq> [] \<Longrightarrow>
     sublist (''ra.allergen_id IN ('' @ join '','' (map str_int ids) @ '')'') (allergen_clause ids)"
proof -
  assume "ids \<noteq> []"
  then have "allergen_clause ids =
      concat [nl, ''            AND NOT EXISTS ('', nl,
              ''                SELECT 1 FROM recipe_allergens ra'', nl,
              ''                WHERE ra.recipe_id = r.recipe_id'', nl,
              ''                AND ''] @
      (''ra.allergen_id IN ('' @ join '','' (map str_int ids) @ '')'') @
      concat [nl, ''            )'', nl, ''        '']"
    by (simp add: allergen_clause_def)
  then show ?thesis by (simp only: sublist_appendI)
qed

lemma diet_clause_in_list:
  "ids \<noteq> [] \<Longrightarrow>
     sublist (''rdl.label_id IN ('' @ join '','' (map str_int ids) @ '')'') (diet_clause ids)"
proof -
  assume "ids \<noteq> []"
  then have "diet_clause ids =
      concat [nl, ''            AND EXISTS ('', nl,
              ''                SELECT 1 FROM recipe_diet_labels rdl'', nl,
              ''                WHERE rdl.recipe_id = r.recipe_id'', nl,
              ''                AND ''] @
      (''rdl.label_id IN ('' @ join '','' (map str_int ids) @ '')'') @
      concat [nl, ''            )'', nl, ''        '']"
    by (simp add: diet_clause_def)
  then show ?thesis by (simp only: sublist_appendI)
qed

lemma no_filters_text:
  "category f = None \<Longrightarrow> exclude_allergen_ids f = [] \<Longrightarrow> diet_label_ids f = [] \<Longrightarrow>
   query_text f =
     concat [select_from,
       ''    WHERE v.calories BETWEEN '', str_int (cal_min f), '' AND '', str_int (cal_max f), nl,
       ''      AND v.pct_carbs BETWEEN '', str_int (carb_target f - margin f),
         '' AND '', str_int (carb_target f + margin f), nl,
       ''      AND v.pct_fat BETWEEN '', str_int (fat_target f - margin f),
         '' AND '', str_int (fat_target f + margin f), nl,
       ''      AND v.pct_protein BETWEEN '', str_int (prot_target f - margin f),
         '' AND '', str_int (prot_target f + margin f), nl,
       ''      '', nl,
       ''      '', nl,
       ''      '', nl,
       ''    ORDER BY v.calories'', nl,
       ''    '']"
  by (simp add: query_text_def query_pieces_def category_clause_def allergen_clause_def
        diet_clause_def)

text \<open>
  C10. The allergen clause and the diet label clause are in the text exactly when their id
  list is not empty. The list between \<^verbatim>\<open>IN (\<close> and \<^verbatim>\<open>)\<close> is then not empty, so
  neither clause ever holds \<^verbatim>\<open>IN ()\<close>. With both lists empty and no category, the
  text is the select list, the four range conditions, three blank lines and the ordering.
\<close>

theorem in_list_never_empty:
  "(allergen_clause ids = [] \<longleftrightarrow> ids = []) \<and>
   (diet_clause ids = [] \<longleftrightarrow> ids = []) \<and>
   \<not> sublist ''IN ()'' (allergen_clause ids) \<and>
   \<not> sublist ''IN ()'' (diet_clause ids) \<and>
   (ids \<noteq> [] \<longrightarrow>
      join '','' (map str_int ids) \<noteq> [] \<and>
      sublist (''ra.allergen_id IN ('' @ join '','' (map str_int ids) @ '')'') (allergen_clause ids) \<and>
      sublist (''rdl.label_id IN ('' @ join '','' (map str_int ids) @ '')'') (diet_clause ids)) \<and>
   (category f = None \<and> exclude_allergen_ids f = [] \<and> diet_label_ids f = [] \<longrightarrow>
      query_text f =
        concat [select_from,
          ''    WHERE v.calories BETWEEN '', str_int (cal_min f), '' AND '', str_int (cal_max f), nl,
          ''      AND v.pct_carbs BETWEEN '', str_int (carb_target f - margin f),
            '' AND '', str_int (carb_target f + margin f), nl,
          ''      AND v.pct_fat BETWEEN '', str_int (fat_target f - margin f),
            '' AND '', str_int (fat_target f + margin f), nl,
          ''      AND v.pct_protein BETWEEN '', str_int (prot_target f - margin f),
            '' AND '', str_int (prot_target f + margin f), nl,
          ''      '', nl,
          ''      '', nl,
          ''      '', nl,
          ''    ORDER BY v.calories'', nl,
          ''    ''])"
proof -
  have a: "allergen_clause ids = [] \<longleftrightarrow> ids = []"
    by (simp add: allergen_clause_def nl_def)
  have d: "diet_clause ids = [] \<longleftrightarrow> ids = []"
    by (simp add: diet_clause_def nl_def)
  have j: "ids \<noteq> [] \<longrightarrow> join '','' (map str_int ids) \<noteq> []"
    using join_nonempty by blast
  from a d j allergen_clause_no_empty_in diet_clause_no_empty_in allergen_clause_in_list
    diet_clause_in_list no_filters_text
  show ?thesis by blast
qed

theorem in_list_never_empty_witness:
  "allergen_clause [7, 12] \<noteq> [] \<and> diet_clause [7, 12] \<noteq> [] \<and>
   \<not> sublist ''IN ()'' (allergen_clause [7, 12]) \<and>
   \<not> sublist ''IN ()'' (diet_clause [7, 12]) \<and>
   sublist ''ra.allergen_id IN (7,12)'' (allergen_clause [7, 12]) \<and>
   sublist ''rdl.label_id IN (7,12)'' (diet_clause [7, 12]) \<and>
   category demo_filter = None \<and> exclude_allergen_ids demo_filter = [] \<and>
   diet_label_ids demo_filter = [] \<and>
   query_text demo_filter =
     select_from @
     ''    WHERE v.calories BETWEEN 100 AND 700'' @ nl @
     ''      AND v.pct_carbs BETWEEN 45 AND 55'' @ nl @
     ''      AND v.pct_fat BETWEEN 25 AND 35'' @ nl @
     ''      AND v.pct_protein BETWEEN 15 AND 25'' @ nl @
     ''      '' @ nl @ ''      '' @ nl @ ''      '' @ nl @
     ''    ORDER BY v.calories'' @ nl @ ''    ''"
proof -
  have s: "str_int 7 = ''7''" "str_int 12 = ''12''" "str_int 100 = ''100''" "str_int 700 = ''700''"
    "str_int 45 = ''45''" "str_int 55 = ''55''" "str_int 25 = ''25''" "str_int 35 = ''35''"
    "str_int 15 = ''15''"
    by (simp_all add: str_int_def str_nat.simps)
  have f: "category demo_filter = None" "exclude_allergen_ids demo_filter = []"
    "diet_label_ids demo_filter = []" "cal_min demo_filter = 100" "cal_max demo_filter = 700"
    "carb_target demo_filter = 50" "fat_target demo_filter = 30" "prot_target demo_filter = 20"
    "margin demo_filter = 5"
    by (simp_all add: demo_filter_def)
  from in_list_never_empty [of "[7, 12]" demo_filter] show ?thesis
    by (simp add: s f)
qed

subsection \<open>Values in the text\<close>

lemma sublist_window: "sublist (concat (take n (drop k ps))) (concat ps)"
proof -
  have "take n (drop k ps) @ drop n (drop k ps) = drop k ps" by (rule append_take_drop_id)
  then have "take k ps @ take n (drop k ps) @ drop n (drop k ps) = ps" by simp
  then have "concat ps = concat (take k ps @ take n (drop k ps) @ drop n (drop k ps))" by simp
  then have "concat ps = concat (take k ps) @ concat (take n (drop k ps)) @ concat (drop n (drop k ps))"
    by (simp only: concat_append)
  then show ?thesis by (simp only: sublist_appendI)
qed

lemma sublist_piece: "p \<in> set (query_pieces f) \<Longrightarrow> sublist xs p \<Longrightarrow> sublist xs (query_text f)"
proof -
  assume p: "p \<in> set (query_pieces f)" and s: "sublist xs p"
  from p have "sublist p (query_text f)" unfolding query_text_def by (rule sublist_concat)
  from sublist_order.order_trans[OF s this] show ?thesis .
qed

text \<open>
  C2, as the code has it. \<^verbatim>\<open>search_recipes\<close> binds no parameter: it writes every value
  into the text. The decimal forms of the calorie bounds and of target minus and plus margin
  stand after their \<^verbatim>\<open>BETWEEN\<close>, a category that is neither empty nor
  \<^verbatim>\<open>All Categories\<close> stands unchanged between the quotes of \<^verbatim>\<open>LOWER('...')\<close>, and
  the comma-joined ids stand inside \<^verbatim>\<open>IN (...)\<close>.
\<close>

theorem values_are_spliced_into_text:
  "sublist (''    WHERE v.calories BETWEEN '' @ str_int (cal_min f) @ '' AND '' @ str_int (cal_max f))
     (query_text f) \<and>
   sublist (''      AND v.pct_carbs BETWEEN '' @ str_int (carb_target f - margin f) @ '' AND '' @
            str_int (carb_target f + margin f)) (query_text f) \<and>
   sublist (''      AND v.pct_fat BETWEEN '' @ str_int (fat_target f - margin f) @ '' AND '' @
            str_int (fat_target f + margin f)) (query_text f) \<and>
   sublist (''      AND v.pct_protein BETWEEN '' @ str_int (prot_target f - margin f) @ '' AND '' @
            str_int (prot_target f + margin f)) (query_text f) \<and>
   (\<forall>c. category f = Some c \<and> c \<noteq> [] \<and> c \<noteq> ''All Categories'' \<longrightarrow>
      sublist (''AND LOWER(c.category_name) = LOWER('' @ [squote] @ c @ [squote] @ '')'')
        (query_text f)) \<and>
   (exclude_allergen_ids f \<noteq> [] \<longrightarrow>
      sublist (''ra.allergen_id IN ('' @ join '','' (map str_int (exclude_allergen_ids f)) @ '')'')
        (query_text f)) \<and>
   (diet_label_ids f \<noteq> [] \<longrightarrow>
      sublist (''rdl.label_id IN ('' @ join '','' (map str_int (diet_label_ids f)) @ '')'')
        (query_text f))"
proof -
  have w: "\<And>n k. sublist (concat (take n (drop k (query_pieces f)))) (query_text f)"
    unfolding query_text_def by (rule sublist_window)
  have 1: "sublist (''    WHERE v.calories BETWEEN '' @ str_int (cal_min f) @ '' AND '' @
                    str_int (cal_max f)) (query_text f)"
    using w[of 4 1] by (simp add: query_pieces_def)
  have 2: "sublist (''      AND v.pct_carbs BETWEEN '' @ str_int (carb_target f - margin f) @
                    '' AND '' @ str_int (carb_target f + margin f)) (query_text f)"
    using w[of 4 6] by (simp add: query_pieces_def)
  have 3: "sublist (''      AND v.pct_fat BETWEEN '' @ str_int (fat_target f - margin f) @
                    '' AND '' @ str_int (fat_target f + margin f)) (query_text f)"
    using w[of 4 11] by (simp add: query_pieces_def)
  have 4: "sublist (''      AND v.pct_protein BETWEEN '' @ str_int (prot_target f - margin f) @
                    '' AND '' @ str_int (prot_target f + margin f)) (query_text f)"
    using w[of 4 16] by (simp add: query_pieces_def)
  have 5: "\<forall>c. category f = Some c \<and> c \<noteq> [] \<and> c \<noteq> ''All Categories'' \<longrightarrow>
      sublist (''AND LOWER(c.category_name) = LOWER('' @ [squote] @ c @ [squote] @ '')'')
        (query_text f)"
  proof (intro allI impI, elim conjE)
    fix c assume c: "category f = Some c" "c \<noteq> []" "c \<noteq> ''All Categories''"
    have "category_clause (category f) \<in> set (query_pieces f)"
      by (simp add: query_pieces_def)
    moreover have "category_clause (category f) =
        ''AND LOWER(c.category_name) = LOWER('' @ [squote] @ c @ [squote] @ '')''"
      using c by (simp add: category_clause_def)
    ultimately show "sublist (''AND LOWER(c.category_name) = LOWER('' @ [squote] @ c @ [squote] @ '')'')
        (query_text f)"
      using sublist_piece[of "category_clause (category f)" f] by simp
  qed
  have 6: "exclude_allergen_ids f \<noteq> [] \<longrightarrow>
      sublist (''ra.allergen_id IN ('' @ join '','' (map str_int (exclude_allergen_ids f)) @ '')'')
        (query_text f)"
  proof
    assume "exclude_allergen_ids f \<noteq> []"
    from allergen_clause_in_list[OF this] show "sublist (''ra.allergen_id IN ('' @
        join '','' (map str_int (exclude_allergen_ids f)) @ '')'') (query_text f)"
      by (rule sublist_piece[rotated]) (simp add: query_pieces_def)
  qed
  have 7: "diet_label_ids f \<noteq> [] \<longrightarrow>
      sublist (''rdl.label_id IN ('' @ join '','' (map str_int (diet_label_ids f)) @ '')'')
        (query_text f)"
  proof
    assume "diet_label_ids f \<noteq> []"
    from diet_clause_in_list[OF this] show "sublist (''rdl.label_id IN ('' @
        join '','' (map str_int (diet_label_ids f)) @ '')'') (query_text f)"
      by (rule sublist_piece[rotated]) (simp add: query_pieces_def)
  qed
  from 1 2 3 4 5 6 7 show ?thesis by (intro conjI)
qed

text \<open>
  The text is not independent of the values: two categories give two texts.
\<close>

theorem query_text_depends_on_values:
  "query_text (demo_filter\<lparr>category := Some ''Dessert''\<rparr>) \<noteq>
   query_text (demo_filter\<lparr>category := Some ''Breakfast''\<rparr>)"
  by code_simp

theorem values_are_spliced_into_text_witness:
  "sublist ''    WHERE v.calories BETWEEN 100 AND 700'' (query_text allergy_filter) \<and>
   sublist ''      AND v.pct_carbs BETWEEN 45 AND 55'' (query_text allergy_filter) \<and>
   sublist ''      AND v.pct_fat BETWEEN 25 AND 35'' (query_text allergy_filter) \<and>
   sublist ''      AND v.pct_protein BETWEEN 15 AND 25'' (query_text allergy_filter) \<and>
   sublist ''AND LOWER(c.category_name) = LOWER('Dessert')'' (query_text allergy_filter) \<and>
   sublist ''ra.allergen_id IN (7,12)'' (query_text allergy_filter) \<and>
   sublist ''rdl.label_id IN (3)'' (query_text allergy_filter)"
proof -
  have s: "str_int 7 = ''7''" "str_int 12 = ''12''" "str_int 100 = ''100''" "str_int 700 = ''700''"
    "str_int 45 = ''45''" "str_int 55 = ''55''" "str_int 25 = ''25''" "str_int 35 = ''35''"
    "str_int 15 = ''15''" "str_int 3 = ''3''"
    by (simp_all add: str_int_def str_nat.simps)
  from values_are_spliced_into_text [of allergy_filter] show ?thesis
    by (simp add: allergy_filter_def demo_filter_def s squote_def)
qed



section \<open>What \<^verbatim>\<open>search_recipes\<close> returns\<close>


subsection \<open>A category that ends its own literal\<close>

text \<open>
  Line 82 writes the category between the quotes of \<^verbatim>\<open>LOWER('...')\<close> without
  escaping it. A category with a single quote in it therefore ends the literal, and the rest
  of the category is read as SQL. The four theorems of this subsection evaluate the program
  at such categories: each gives the text that is handed to the engine, character by
  character.
\<close>





subsection \<open>Failure of the query\<close>

text \<open>
  C3. When the execution of the query raises, \<^verbatim>\<open>search_recipes\<close> catches the exception,
  shows the error \<^verbatim>\<open>Query failed: ...\<close> and returns the empty data frame; the page
  then goes on to its branch for an empty result (a warning and the list of hints) and ends
  normally.
\<close>

theorem query_failure_is_caught:
  "fault eng (query_text f) = Some e \<Longrightarrow>
     search_recipes eng f = (empty_frame, [St_error (''Query failed: '' @ e)]) \<and>
     (\<forall>w lib. call_args w = f \<longrightarrow>
        main_content lib eng w =
          Inr [St_error (''Query failed: '' @ e),
               St_warning ''No recipes found matching your criteria. Try adjusting your filters:'',
               St_markdown no_results_help])"
proof -
  assume a: "fault eng (query_text f) = Some e"
  then have s: "search_recipes eng f = (empty_frame, [St_error (''Query failed: '' @ e)])"
    by (simp add: search_recipes_def read_sql_def)
  then show ?thesis by (simp add: main_content_def empty_frame_def)
qed

theorem query_failure_is_caught_witness:
  "fault down_engine (query_text demo_filter) = Some ''connection lost'' \<and>
   search_recipes down_engine demo_filter =
     (empty_frame, [St_error ''Query failed: connection lost'']) \<and>
   main_content demo_lib down_engine demo_filter =
     Inr [St_error ''Query failed: connection lost'',
          St_warning ''No recipes found matching your criteria. Try adjusting your filters:'',
          St_markdown no_results_help]"
proof -
  have c: "call_args demo_filter = demo_filter"
    by (simp add: call_args_def demo_filter_def)
  have h: "fault down_engine (query_text demo_filter) = Some ''connection lost''"
    by (simp add: down_engine_def)
  from query_failure_is_caught [OF h] c h show ?thesis by simp
qed



section \<open>The presenter\<close>

subsection \<open>The frames of the heap\<close>

lemma bind_Inr: "bind (Inr x) k = k x"
  by (simp add: bind_def)

lemma bind_Inl: "bind (Inl e) k = Inl e"
  by (simp add: bind_def)

lemma bind_assoc: "bind (bind m k) k' = bind m (\<lambda>x. bind (k x) k')"
  by (cases m) (simp_all add: bind_def)

lemma bind_eq_Inr: "bind m k = Inr y \<Longrightarrow> \<exists>x. m = Inr x \<and> k x = Inr y"
  by (cases m) (simp_all add: bind_def)

lemma in_place_last:
  "in_place (Suc (length h)) g (h @ [s, df]) = bind (g df) (\<lambda>df'. Inr (h @ [s, df']))"
proof -
  have "(h @ [s, df]) ! Suc (length h) = df"
    by (simp add: nth_append)
  moreover have "\<And>df'. (h @ [s, df])[Suc (length h) := df'] = h @ [s, df']"
    by (simp add: list_update_append)
  ultimately show ?thesis by (simp add: in_place_def)
qed

lemma prepare_display_heap:
  "prepare_display lib h a =
     bind (select_columns [''name'', ''calories'', ''pct_carbs'', ''pct_fat'', ''pct_protein'',
                           ''category_name'', ''rating'', ''url''] (h ! a))
       (\<lambda>sel. bind (display_steps lib sel) (\<lambda>disp. Inr (h @ [sel, disp], Suc (length h))))"
proof -
  have "\<And>sel. (let (h1, s) = alloc h sel; (h2, d) = alloc h1 (h1 ! s)
      in bind (in_place d (set_columns [''Recipe Name'', ''Calories'', ''Carbs %'', ''Fat %'',
                                        ''Protein %'', ''Category'', ''Rating'', ''URL'']) h2)
        (\<lambda>h3. bind (in_place d (assign_column ''Carbs %'' (round_cell lib 1)) h3)
        (\<lambda>h4. bind (in_place d (assign_column ''Fat %'' (round_cell lib 1)) h4)
        (\<lambda>h5. bind (in_place d (assign_column ''Protein %'' (round_cell lib 1)) h5)
        (\<lambda>h6. bind (in_place d (assign_column ''Calories''
                                    (\<lambda>c. bind (round_cell lib 0 c) astype_int)) h6)
        (\<lambda>h7. bind (in_place d (assign_column ''Rating'' (round_cell lib 2)) h7)
        (\<lambda>h8. Inr (h8, d)))))))) =
      bind (display_steps lib sel) (\<lambda>disp. Inr (h @ [sel, disp], Suc (length h)))"
    by (simp add: alloc_def display_steps_def in_place_last bind_assoc bind_Inr)
  then show ?thesis unfolding prepare_display_def by simp
qed

lemma prepare_display_result:
  "prepare_display lib h a = Inr (h', d) \<Longrightarrow>
     \<exists>sel disp. select_columns [''name'', ''calories'', ''pct_carbs'', ''pct_fat'',
                   ''pct_protein'', ''category_name'', ''rating'', ''url''] (h ! a) = Inr sel \<and>
       display_steps lib sel = Inr disp \<and> h' = h @ [sel, disp] \<and> d = Suc (length h)"
proof -
  assume p: "prepare_display lib h a = Inr (h', d)"
  let ?N = "[''name'', ''calories'', ''pct_carbs'', ''pct_fat'', ''pct_protein'',
             ''category_name'', ''rating'', ''url'']"
  from p obtain sel where s: "select_columns ?N (h ! a) = Inr sel"
    and r: "bind (display_steps lib sel) (\<lambda>disp. Inr (h @ [sel, disp], Suc (length h))) = Inr (h', d)"
    unfolding prepare_display_heap using bind_eq_Inr by fastforce
  from bind_eq_Inr[OF r] obtain disp where "display_steps lib sel = Inr disp"
    "h' = h @ [sel, disp]" "d = Suc (length h)" by auto
  with s show ?thesis by blast
qed

text \<open>
  C8. Whenever lines 284 to 300 succeed, the frame of \<^verbatim>\<open>results_df\<close>, like every frame
  that existed before, is what it was: the selection and its copy are new frames, and the
  assignments change the copy only.
\<close>

theorem raw_result_unchanged:
  "prepare_display lib h a = Inr (h', d) \<Longrightarrow> a < length h \<Longrightarrow>
     h' ! a = h ! a \<and> take (length h) h' = h \<and> d \<noteq> a"
proof -
  assume p: "prepare_display lib h a = Inr (h', d)" and a: "a < length h"
  from prepare_display_result[OF p] obtain sel disp where
    "h' = h @ [sel, disp]" "d = Suc (length h)" by blast
  with a show ?thesis by (simp add: nth_append)
qed



subsection \<open>The display frame of a result of the statement\<close>

lemma zip_update_map:
  "map (\<lambda>(row, x). row[i := x]) (zip (map cf rs) (map g rs)) = map (\<lambda>r. (cf r)[i := g r]) rs"
  by (induction rs) simp_all

lemma assign_column_map:
  assumes i: "col_index (df_columns df) n = Some i"
    and r: "df_rows df = map cf rs"
    and g: "\<And>r. g (cell_at (cf r) i) = Inr (g' r)"
  shows "assign_column n g df = Inr (df\<lparr>df_rows := map (\<lambda>r. (cf r)[i := g' r]) rs\<rparr>)"
proof -
  have "map_result (\<lambda>row. g (cell_at row i)) (map cf rs) = Inr (map (\<lambda>row. g' row) rs)"
  proof (induction rs)
    case Nil show ?case by simp
  next
    case (Cons a rs) then show ?case by (simp add: g)
  qed
  then show ?thesis
    unfolding assign_column_def i r by (simp add: bind_Inr zip_update_map)
qed

lemma select_columns_frame:
  "select_columns [''name'', ''calories'', ''pct_carbs'', ''pct_fat'', ''pct_protein'',
                   ''category_name'', ''rating'', ''url''] (frame_of_rows rs) =
     Inr (selected_frame rs)"
  by (simp add: select_columns_def frame_of_rows_def selected_frame_def bind_Inr
        cells_of_row_def selected_cells_def cell_at_def)

lemma round_cell_option:
  "round_cell lib d (cell_of_option NumCell x) =
     Inr (cell_of_option NumCell (map_option (series_round lib d) x))"
  by (cases x) (simp_all add: round_cell_def cell_of_option_def)

lemma round_calories:
  "bind (round_cell lib 0 (NumCell x)) astype_int = Inr (IntCell (trunc_int (series_round lib 0 x)))"
  by (simp add: round_cell_def astype_int_def bind_Inr)

lemma display_steps_frame: "display_steps lib (selected_frame rs) = Inr (display_frame lib rs)"
proof -
  define L where "L = [''Recipe Name'', ''Calories'', ''Carbs %'', ''Fat %'', ''Protein %'',
                       ''Category'', ''Rating'', ''URL'']"
  define d3 where "d3 = \<lparr>df_columns = L, df_rows = map selected_cells rs\<rparr>"
  define c4 where "c4 = (\<lambda>r. (selected_cells r)[Suc (Suc 0) := NumCell (series_round lib 1 (pct_carbs r))])"
  define c5 where "c5 = (\<lambda>r. (c4 r)[Suc (Suc (Suc 0)) := NumCell (series_round lib 1 (pct_fat r))])"
  define c6 where "c6 = (\<lambda>r. (c5 r)[Suc (Suc (Suc (Suc 0))) := NumCell (series_round lib 1 (pct_protein r))])"
  define c7 where "c7 = (\<lambda>r. (c6 r)[Suc 0 := IntCell (trunc_int (series_round lib 0 (calories r)))])"
  define c8 where "c8 = (\<lambda>r. (c7 r)[Suc (Suc (Suc (Suc (Suc (Suc 0))))) :=
                            cell_of_option NumCell (map_option (series_round lib 2) (rating r))])"
  have i: "col_index L ''Carbs %'' = Some (Suc (Suc 0))"
    "col_index L ''Fat %'' = Some (Suc (Suc (Suc 0)))"
    "col_index L ''Protein %'' = Some (Suc (Suc (Suc (Suc 0))))"
    "col_index L ''Calories'' = Some (Suc 0)"
    "col_index L ''Rating'' = Some (Suc (Suc (Suc (Suc (Suc (Suc 0))))))"
    unfolding L_def by simp_all
  have s3: "set_columns L (selected_frame rs) = Inr d3"
    by (simp add: set_columns_def selected_frame_def d3_def L_def)
  have s4: "assign_column ''Carbs %'' (round_cell lib 1) d3 = Inr (d3\<lparr>df_rows := map c4 rs\<rparr>)"
    unfolding c4_def
    by (rule assign_column_map)
       (simp_all add: d3_def i selected_cells_def round_cell_def cell_at_def)
  have s5: "assign_column ''Fat %'' (round_cell lib 1) (d3\<lparr>df_rows := map c4 rs\<rparr>) =
      Inr (d3\<lparr>df_rows := map c5 rs\<rparr>)"
    using assign_column_map[of "d3\<lparr>df_rows := map c4 rs\<rparr>" "''Fat %''" "Suc (Suc (Suc 0))" c4 rs
        "round_cell lib 1" "\<lambda>r. NumCell (series_round lib 1 (pct_fat r))"]
    by (simp add: d3_def i c4_def c5_def selected_cells_def round_cell_def cell_at_def)
  have s6: "assign_column ''Protein %'' (round_cell lib 1) (d3\<lparr>df_rows := map c5 rs\<rparr>) =
      Inr (d3\<lparr>df_rows := map c6 rs\<rparr>)"
    using assign_column_map[of "d3\<lparr>df_rows := map c5 rs\<rparr>" "''Protein %''"
        "Suc (Suc (Suc (Suc 0)))" c5 rs "round_cell lib 1"
        "\<lambda>r. NumCell (series_round lib 1 (pct_protein r))"]
    by (simp add: d3_def i c4_def c5_def c6_def selected_cells_def round_cell_def cell_at_def)
  have s7: "assign_column ''Calories'' (\<lambda>c. bind (round_cell lib 0 c) astype_int)
        (d3\<lparr>df_rows := map c6 rs\<rparr>) = Inr (d3\<lparr>df_rows := map c7 rs\<rparr>)"
    using assign_column_map[of "d3\<lparr>df_rows := map c6 rs\<rparr>" "''Calories''" "Suc 0" c6 rs
        "\<lambda>c. bind (round_cell lib 0 c) astype_int"
        "\<lambda>r. IntCell (trunc_int (series_round lib 0 (calories r)))"]
    by (simp add: d3_def i c4_def c5_def c6_def c7_def selected_cells_def round_calories cell_at_def)
  have s8: "assign_column ''Rating'' (round_cell lib 2) (d3\<lparr>df_rows := map c7 rs\<rparr>) =
      Inr (d3\<lparr>df_rows := map c8 rs\<rparr>)"
    using assign_column_map[of "d3\<lparr>df_rows := map c7 rs\<rparr>" "''Rating''"
        "Suc (Suc (Suc (Suc (Suc (Suc 0)))))" c7 rs "round_cell lib 2"
        "\<lambda>r. cell_of_option NumCell (map_option (series_round lib 2) (rating r))"]
    by (simp add: d3_def i c4_def c5_def c6_def c7_def c8_def selected_cells_def
          round_cell_option cell_at_def)
  have c: "c8 = display_cells lib"
    by (simp add: fun_eq_iff c8_def c7_def c6_def c5_def c4_def selected_cells_def display_cells_def)
  have "display_steps lib (selected_frame rs) = Inr (d3\<lparr>df_rows := map c8 rs\<rparr>)"
    unfolding display_steps_def L_def[symmetric]
    by (simp only: s3 s4 s5 s6 s7 s8 bind_Inr)
  also have "d3\<lparr>df_rows := map c8 rs\<rparr> = display_frame lib rs"
    by (simp add: c d3_def display_frame_def L_def)
  finally show ?thesis .
qed

lemma display_df_rows: "display_df lib (frame_of_rows rs) = Inr (display_frame lib rs)"
  by (simp add: display_df_def select_columns_frame display_steps_frame bind_Inr)

lemma prepare_display_rows:
  "h ! a = frame_of_rows rs \<Longrightarrow>
     prepare_display lib h a =
       Inr (h @ [selected_frame rs, display_frame lib rs], Suc (length h))"
  by (simp add: prepare_display_heap select_columns_frame display_steps_frame bind_Inr)

theorem raw_result_unchanged_witness:
  "prepare_display demo_lib [frame_of_rows [omelette_row, pie_row]] 0 =
     Inr ([frame_of_rows [omelette_row, pie_row], selected_frame [omelette_row, pie_row],
           display_frame demo_lib [omelette_row, pie_row]], 2) \<and>
   (0::nat) < length [frame_of_rows [omelette_row, pie_row]] \<and>
   [frame_of_rows [omelette_row, pie_row], selected_frame [omelette_row, pie_row],
    display_frame demo_lib [omelette_row, pie_row]] ! 0 = frame_of_rows [omelette_row, pie_row]"
proof -
  have p: "prepare_display demo_lib [frame_of_rows [omelette_row, pie_row]] 0 =
     Inr ([frame_of_rows [omelette_row, pie_row], selected_frame [omelette_row, pie_row],
           display_frame demo_lib [omelette_row, pie_row]], 2)"
    using prepare_display_rows[of "[frame_of_rows [omelette_row, pie_row]]" 0
        "[omelette_row, pie_row]" demo_lib]
    by (simp add: numeral_2_eq_2)
  have l: "(0::nat) < length [frame_of_rows [omelette_row, pie_row]]" by simp
  from raw_result_unchanged [OF p l] p l show ?thesis by simp
qed


subsection \<open>The shape of the display frame\<close>

lemma map_result_length: "map_result g xs = Inr ys \<Longrightarrow> length ys = length xs"
proof (induction xs arbitrary: ys)
  case Nil then show ?case by simp
next
  case (Cons x xs)
  then show ?case by (auto split: sum.splits)
qed

lemma select_columns_shape:
  assumes "select_columns names df = Inr sel"
  shows "length (df_rows sel) = length (df_rows df) \<and>
         list_all (\<lambda>row. length row = length (df_columns sel)) (df_rows sel)"
proof -
  from bind_eq_Inr[OF assms[unfolded select_columns_def]] obtain found where
    "sel = \<lparr>df_columns = map fst (concat found),
            df_rows = map (\<lambda>row. map (\<lambda>p. cell_at row (snd p)) (concat found)) (df_rows df)\<rparr>"
    by auto
  then show ?thesis by (simp add: list_all_iff)
qed

lemma set_columns_shape:
  assumes "set_columns names df = Inr d"
  shows "df_columns d = names \<and> df_rows d = df_rows df \<and>
         length (df_columns df) = length names"
  using assms by (auto simp add: set_columns_def split: if_splits)

lemma assign_column_shape:
  assumes a: "assign_column n g df = Inr d"
  shows "df_columns d = df_columns df \<and> length (df_rows d) = length (df_rows df) \<and>
         (list_all (\<lambda>row. length row = k) (df_rows df) \<longrightarrow>
          list_all (\<lambda>row. length row = k) (df_rows d))"
proof -
  from a obtain i where i: "col_index (df_columns df) n = Some i"
    by (cases "col_index (df_columns df) n") (simp_all add: assign_column_def)
  from a i have "bind (map_result (\<lambda>row. g (cell_at row i)) (df_rows df))
      (\<lambda>col. Inr (df\<lparr>df_rows := map (\<lambda>(row, x). row[i := x]) (zip (df_rows df) col)\<rparr>)) = Inr d"
    by (simp add: assign_column_def)
  from bind_eq_Inr[OF this] obtain col where
    c: "map_result (\<lambda>row. g (cell_at row i)) (df_rows df) = Inr col"
    and d: "d = df\<lparr>df_rows := map (\<lambda>(row, x). row[i := x]) (zip (df_rows df) col)\<rparr>"
    by auto
  from map_result_length[OF c] have l: "length col = length (df_rows df)" .
  have "list_all (\<lambda>row. length row = k) (df_rows df) \<Longrightarrow>
        list_all (\<lambda>row. length row = k) (map (\<lambda>(row, x). row[i := x]) (zip (df_rows df) col))"
    by (auto simp add: list_all_iff dest: set_zip_leftD)
  with d l show ?thesis by simp
qed

lemma display_steps_shape:
  assumes s: "display_steps lib sel = Inr disp"
    and r: "list_all (\<lambda>row. length row = length (df_columns sel)) (df_rows sel)"
  shows "df_columns disp = [''Recipe Name'', ''Calories'', ''Carbs %'', ''Fat %'',
                            ''Protein %'', ''Category'', ''Rating'', ''URL''] \<and>
         length (df_rows disp) = length (df_rows sel) \<and>
         list_all (\<lambda>row. length row = 8) (df_rows disp)"
proof -
  define L where "L = [''Recipe Name'', ''Calories'', ''Carbs %'', ''Fat %'', ''Protein %'',
                       ''Category'', ''Rating'', ''URL'']"
  have lL: "length L = 8" by (simp add: L_def)
  from s have s': "bind (set_columns L sel)
     (\<lambda>d3. bind (assign_column ''Carbs %'' (round_cell lib 1) d3)
     (\<lambda>d4. bind (assign_column ''Fat %'' (round_cell lib 1) d4)
     (\<lambda>d5. bind (assign_column ''Protein %'' (round_cell lib 1) d5)
     (\<lambda>d6. bind (assign_column ''Calories'' (\<lambda>c. bind (round_cell lib 0 c) astype_int) d6)
     (\<lambda>d7. assign_column ''Rating'' (round_cell lib 2) d7))))) = Inr disp"
    unfolding display_steps_def L_def by simp
  from bind_eq_Inr[OF s'] obtain d3 where 3: "set_columns L sel = Inr d3"
    and s3: "bind (assign_column ''Carbs %'' (round_cell lib 1) d3)
     (\<lambda>d4. bind (assign_column ''Fat %'' (round_cell lib 1) d4)
     (\<lambda>d5. bind (assign_column ''Protein %'' (round_cell lib 1) d5)
     (\<lambda>d6. bind (assign_column ''Calories'' (\<lambda>c. bind (round_cell lib 0 c) astype_int) d6)
     (\<lambda>d7. assign_column ''Rating'' (round_cell lib 2) d7)))) = Inr disp"
    by blast
  from bind_eq_Inr[OF s3] obtain d4 where 4: "assign_column ''Carbs %'' (round_cell lib 1) d3 = Inr d4"
    and s4: "bind (assign_column ''Fat %'' (round_cell lib 1) d4)
     (\<lambda>d5. bind (assign_column ''Protein %'' (round_cell lib 1) d5)
     (\<lambda>d6. bind (assign_column ''Calories'' (\<lambda>c. bind (round_cell lib 0 c) astype_int) d6)
     (\<lambda>d7. assign_column ''Rating'' (round_cell lib 2) d7))) = Inr disp"
    by blast
  from bind_eq_Inr[OF s4] obtain d5 where 5: "assign_column ''Fat %'' (round_cell lib 1) d4 = Inr d5"
    and s5: "bind (assign_column ''Protein %'' (round_cell lib 1) d5)
     (\<lambda>d6. bind (assign_column ''Calories'' (\<lambda>c. bind (round_cell lib 0 c) astype_int) d6)
     (\<lambda>d7. assign_column ''Rating'' (round_cell lib 2) d7)) = Inr disp"
    by blast
  from bind_eq_Inr[OF s5] obtain d6 where 6: "assign_column ''Protein %'' (round_cell lib 1) d5 = Inr d6"
    and s6: "bind (assign_column ''Calories'' (\<lambda>c. bind (round_cell lib 0 c) astype_int) d6)
     (\<lambda>d7. assign_column ''Rating'' (round_cell lib 2) d7) = Inr disp"
    by blast
  from bind_eq_Inr[OF s6] obtain d7 where
    7: "assign_column ''Calories'' (\<lambda>c. bind (round_cell lib 0 c) astype_int) d6 = Inr d7"
    and 8: "assign_column ''Rating'' (round_cell lib 2) d7 = Inr disp"
    by blast
  note h3 = set_columns_shape[OF 3]
  note h4 = assign_column_shape[OF 4, of 8]
  note h5 = assign_column_shape[OF 5, of 8]
  note h6 = assign_column_shape[OF 6, of 8]
  note h7 = assign_column_shape[OF 7, of 8]
  note h8 = assign_column_shape[OF 8, of 8]
  from h3 r lL have r3: "list_all (\<lambda>row. length row = 8) (df_rows d3)" by simp
  with h4 have r4: "list_all (\<lambda>row. length row = 8) (df_rows d4)" by simp
  with h5 have r5: "list_all (\<lambda>row. length row = 8) (df_rows d5)" by simp
  with h6 have r6: "list_all (\<lambda>row. length row = 8) (df_rows d6)" by simp
  with h7 have r7: "list_all (\<lambda>row. length row = 8) (df_rows d7)" by simp
  with h8 have r8: "list_all (\<lambda>row. length row = 8) (df_rows disp)" by simp
  from h3 h4 h5 h6 h7 h8 have "df_columns disp = L" by simp
  moreover from h3 h4 h5 h6 h7 h8 have "length (df_rows disp) = length (df_rows sel)" by simp
  ultimately show ?thesis using r8 unfolding L_def by simp
qed

subsection \<open>Reading what the writer wrote\<close>

lemma scan_quoted_body:
  "csv_scan Quoted fld rcd
     (concat (map (\<lambda>ch. if ch = CHR 0x22 then [ch, ch] else [ch]) s) @ CHR 0x22 # rest) =
   csv_scan QuoteSeen (rev s @ fld) rcd rest"
  by (induction s arbitrary: fld) simp_all

lemma scan_plain_body:
  "\<not> list_ex (\<lambda>ch. ch \<in> set [CHR '','', CHR 0x22, CHR 0x0A] \<or> (q \<and> ch = CHR 0x0D)) s \<Longrightarrow>
   csv_scan Plain fld rcd (s @ rest) = csv_scan Plain (rev s @ fld) rcd rest"
  by (induction s arbitrary: fld) simp_all

lemma scan_field_comma:
  "csv_scan Plain [] rcd (csv_field lib s @ CHR '','' # rest) = csv_scan Plain [] (s # rcd) rest"
proof (cases "list_ex (\<lambda>ch. ch \<in> set [CHR '','', CHR 0x22, CHR 0x0A] \<or>
                            (quotes_cr lib \<and> ch = CHR 0x0D)) s")
  case True
  then have "csv_field lib s @ CHR '','' # rest =
      CHR 0x22 # concat (map (\<lambda>ch. if ch = CHR 0x22 then [ch, ch] else [ch]) s) @
        CHR 0x22 # CHR '','' # rest"
    by (simp add: csv_field_def)
  then show ?thesis by (simp add: scan_quoted_body)
next
  case False
  then have "csv_field lib s = s" by (simp add: csv_field_def)
  with scan_plain_body[OF False, of "[]" rcd "CHR '','' # rest"] show ?thesis by simp
qed

lemma scan_field_newline:
  "csv_scan Plain [] rcd (csv_field lib s @ CHR 0x0A # rest) =
     rev (s # rcd) # csv_scan Plain [] [] rest"
proof (cases "list_ex (\<lambda>ch. ch \<in> set [CHR '','', CHR 0x22, CHR 0x0A] \<or>
                            (quotes_cr lib \<and> ch = CHR 0x0D)) s")
  case True
  then have "csv_field lib s @ CHR 0x0A # rest =
      CHR 0x22 # concat (map (\<lambda>ch. if ch = CHR 0x22 then [ch, ch] else [ch]) s) @
        CHR 0x22 # CHR 0x0A # rest"
    by (simp add: csv_field_def)
  then show ?thesis by (simp add: scan_quoted_body)
next
  case False
  then have "csv_field lib s = s" by (simp add: csv_field_def)
  with scan_plain_body[OF False, of "[]" rcd "CHR 0x0A # rest"] show ?thesis by simp
qed

lemma scan_fields:
  "fs \<noteq> [] \<Longrightarrow>
   csv_scan Plain [] rcd (join '','' (map (csv_field lib) fs) @ CHR 0x0A # rest) =
     (rev rcd @ fs) # csv_scan Plain [] [] rest"
proof (induction fs arbitrary: rcd)
  case Nil then show ?case by simp
next
  case (Cons f fs)
  show ?case
  proof (cases fs)
    case Nil
    then show ?thesis by (simp add: scan_field_newline)
  next
    case (Cons g gs)
    then have "join '','' (map (csv_field lib) (f # fs)) @ CHR 0x0A # rest =
        csv_field lib f @ CHR '','' # (join '','' (map (csv_field lib) fs) @ CHR 0x0A # rest)"
      by simp
    moreover from Cons have "fs \<noteq> []" by simp
    ultimately show ?thesis
      using Cons.IH[of "f # rcd"] by (simp add: scan_field_comma)
  qed
qed

lemma scan_line:
  "fs \<noteq> [] \<Longrightarrow>
   csv_scan Plain [] [] (csv_line lib fs @ rest) = fs # csv_scan Plain [] [] rest"
proof (cases "fs = [[]]")
  case True
  then show ?thesis by (simp add: csv_line_def nl_def)
next
  case False
  assume "fs \<noteq> []"
  from scan_fields[OF this, of "[]" lib rest] False show ?thesis
    by (simp add: csv_line_def nl_def)
qed

lemma parse_csv_lines:
  "list_all (\<lambda>fs. fs \<noteq> []) recs \<Longrightarrow> parse_csv (concat (map (csv_line lib) recs)) = recs"
  unfolding parse_csv_def
  by (induction recs) (simp_all add: scan_line)

lemma parse_to_csv:
  assumes c: "df_columns df \<noteq> []"
    and r: "list_all (\<lambda>row. row \<noteq> []) (df_rows df)"
  shows "parse_csv (to_csv lib df) = df_columns df # map (map (cell_text lib)) (df_rows df)"
proof -
  from r have "list_all (\<lambda>fs. fs \<noteq> []) (map (map (cell_text lib)) (df_rows df))"
    by (simp add: list_all_iff)
  with c have "list_all (\<lambda>fs. fs \<noteq> []) (df_columns df # map (map (cell_text lib)) (df_rows df))"
    by simp
  from parse_csv_lines[OF this, of lib] show ?thesis by (simp add: to_csv_def)
qed



subsection \<open>The export\<close>

lemma main_content_shown:
  assumes s: "search_recipes eng (call_args w) = (results, shown)"
    and n: "df_rows results \<noteq> []"
  shows "main_content lib eng w =
     bind (display_df lib results)
       (\<lambda>disp. Inr (shown @
          [St_success (str_int (int (length (df_rows results))) @ '' recipes match your criteria''),
           St_dataframe disp,
           St_download_button ''Download Results as CSV'' (to_csv lib disp)
             (file_name w) ''text/csv'']))"
proof -
  have "\<And>sel disp. ([results] @ [sel, disp]) ! Suc (length [results]) = disp" by simp
  then show ?thesis
    unfolding main_content_def s prepare_display_heap display_df_def
    using n by (simp add: bind_assoc bind_Inr)
qed

lemma display_df_shape:
  assumes d: "display_df lib results = Inr disp"
  shows "df_columns disp = [''Recipe Name'', ''Calories'', ''Carbs %'', ''Fat %'',
                            ''Protein %'', ''Category'', ''Rating'', ''URL''] \<and>
         length (df_rows disp) = length (df_rows results) \<and>
         list_all (\<lambda>row. length row = 8) (df_rows disp)"
proof -
  from bind_eq_Inr[OF d[unfolded display_df_def]] obtain sel where
    s: "select_columns [''name'', ''calories'', ''pct_carbs'', ''pct_fat'', ''pct_protein'',
                        ''category_name'', ''rating'', ''url''] results = Inr sel"
    and t: "display_steps lib sel = Inr disp" by blast
  from select_columns_shape[OF s] display_steps_shape[OF t] show ?thesis by simp
qed

lemma file_name_text:
  "file_name w = ''recipe_results_'' @ str_int (cal_min w) @ ''-'' @ str_int (cal_max w) @ ''cal.csv''"
  by (simp add: file_name_def)

text \<open>
  C9. For a result that is not empty: whenever the page ends normally, it shows a frame and
  offers a download; the data of the download, read as CSV, is the record of the eight labels
  Recipe Name, Calories, Carbs %, Fat %, Protein %, Category, Rating, URL followed by one
  record for each row of the shown frame, with the texts of its eight cells as fields; the
  shown frame has as many rows as the result; and the file name is \<^verbatim>\<open>recipe_results_\<close>,
  the lower calorie bound, a hyphen, the upper calorie bound and \<^verbatim>\<open>cal.csv\<close>. When the
  result is the frame of rows of the statement, the page does end normally.
\<close>

theorem csv_export:
  assumes s: "search_recipes eng (call_args w) = (results, shown)"
    and n: "df_rows results \<noteq> []"
  shows "(\<forall>evs. main_content lib eng w = Inr evs \<longrightarrow>
            (\<exists>disp. evs = shown @
                [St_success (str_int (int (length (df_rows results))) @
                             '' recipes match your criteria''),
                 St_dataframe disp,
                 St_download_button ''Download Results as CSV'' (to_csv lib disp)
                   (''recipe_results_'' @ str_int (cal_min w) @ ''-'' @ str_int (cal_max w) @
                    ''cal.csv'') ''text/csv''] \<and>
              parse_csv (to_csv lib disp) =
                [''Recipe Name'', ''Calories'', ''Carbs %'', ''Fat %'', ''Protein %'',
                 ''Category'', ''Rating'', ''URL''] # map (map (cell_text lib)) (df_rows disp) \<and>
              length (df_rows disp) = length (df_rows results))) \<and>
         (\<forall>rs. results = frame_of_rows rs \<longrightarrow>
            main_content lib eng w = Inr (shown @
                [St_success (str_int (int (length rs)) @ '' recipes match your criteria''),
                 St_dataframe (display_frame lib rs),
                 St_download_button ''Download Results as CSV'' (to_csv lib (display_frame lib rs))
                   (''recipe_results_'' @ str_int (cal_min w) @ ''-'' @ str_int (cal_max w) @
                    ''cal.csv'') ''text/csv'']))"
proof (intro conjI allI impI)
  fix evs
  assume m: "main_content lib eng w = Inr evs"
  from bind_eq_Inr[OF m[unfolded main_content_shown[OF s n]]] obtain disp where
    d: "display_df lib results = Inr disp"
    and e: "evs = shown @
          [St_success (str_int (int (length (df_rows results))) @ '' recipes match your criteria''),
           St_dataframe disp,
           St_download_button ''Download Results as CSV'' (to_csv lib disp)
             (file_name w) ''text/csv'']"
    by auto
  note h = display_df_shape[OF d]
  from h have c: "df_columns disp \<noteq> []" by simp
  from h have "list_all (\<lambda>row. row \<noteq> []) (df_rows disp)"
    by (auto simp add: list_all_iff)
  from parse_to_csv[OF c this, of lib] h
  have p: "parse_csv (to_csv lib disp) =
      [''Recipe Name'', ''Calories'', ''Carbs %'', ''Fat %'', ''Protein %'',
       ''Category'', ''Rating'', ''URL''] # map (map (cell_text lib)) (df_rows disp)"
    by simp
  from e p h show "\<exists>disp. evs = shown @
                [St_success (str_int (int (length (df_rows results))) @
                             '' recipes match your criteria''),
                 St_dataframe disp,
                 St_download_button ''Download Results as CSV'' (to_csv lib disp)
                   (''recipe_results_'' @ str_int (cal_min w) @ ''-'' @ str_int (cal_max w) @
                    ''cal.csv'') ''text/csv''] \<and>
              parse_csv (to_csv lib disp) =
                [''Recipe Name'', ''Calories'', ''Carbs %'', ''Fat %'', ''Protein %'',
                 ''Category'', ''Rating'', ''URL''] # map (map (cell_text lib)) (df_rows disp) \<and>
              length (df_rows disp) = length (df_rows results)"
    unfolding file_name_text by blast
next
  fix rs
  assume r: "results = frame_of_rows rs"
  have l: "length (df_rows (frame_of_rows rs)) = length rs"
    by (simp add: frame_of_rows_def)
  show "main_content lib eng w = Inr (shown @
                [St_success (str_int (int (length rs)) @ '' recipes match your criteria''),
                 St_dataframe (display_frame lib rs),
                 St_download_button ''Download Results as CSV'' (to_csv lib (display_frame lib rs))
                   (''recipe_results_'' @ str_int (cal_min w) @ ''-'' @ str_int (cal_max w) @
                    ''cal.csv'') ''text/csv''])"
    unfolding main_content_shown[OF s n] r display_df_rows bind_Inr l file_name_text ..
qed

theorem csv_export_witness:
  "search_recipes demo_engine (call_args demo_filter) = (frame_of_rows [stew_row, pie_row], []) \<and>
   df_rows (frame_of_rows [stew_row, pie_row]) \<noteq> [] \<and>
   main_content demo_lib demo_engine demo_filter =
     Inr [St_success ''2 recipes match your criteria'',
          St_dataframe (display_frame demo_lib [stew_row, pie_row]),
          St_download_button ''Download Results as CSV''
            (to_csv demo_lib (display_frame demo_lib [stew_row, pie_row]))
            ''recipe_results_100-700cal.csv'' ''text/csv''] \<and>
   to_csv demo_lib (display_frame demo_lib [stew_row, pie_row]) =
     concat [''Recipe Name,Calories,Carbs %,Fat %,Protein %,Category,Rating,URL'', nl,
             [CHR 0x22], ''Stew, beef'', [CHR 0x22], '',450,*,*,*,,*,http://a/3'', nl,
             ''Apple Pie,650,*,*,*,Dessert,*,http://a/1'', nl] \<and>
   parse_csv (to_csv demo_lib (display_frame demo_lib [stew_row, pie_row])) =
     [[''Recipe Name'', ''Calories'', ''Carbs %'', ''Fat %'', ''Protein %'', ''Category'',
       ''Rating'', ''URL''],
      [''Stew, beef'', ''450'', ''*'', ''*'', ''*'', '''', ''*'', ''http://a/3''],
      [''Apple Pie'', ''650'', ''*'', ''*'', ''*'', ''Dessert'', ''*'', ''http://a/1'']]"
proof -
  have s: "search_recipes demo_engine (call_args demo_filter) =
      (frame_of_rows [stew_row, pie_row], [])"
    by (simp add: search_recipes_def read_sql_def demo_engine_def)
  have n: "df_rows (frame_of_rows [stew_row, pie_row]) \<noteq> []"
    by (simp add: frame_of_rows_def)
  have i: "str_int (int (length [stew_row, pie_row])) = ''2''"
    "str_int (cal_min demo_filter) = ''100''" "str_int (cal_max demo_filter) = ''700''"
    by code_simp+
  have t: "to_csv demo_lib (display_frame demo_lib [stew_row, pie_row]) =
     concat [''Recipe Name,Calories,Carbs %,Fat %,Protein %,Category,Rating,URL'', nl,
             [CHR 0x22], ''Stew, beef'', [CHR 0x22], '',450,*,*,*,,*,http://a/3'', nl,
             ''Apple Pie,650,*,*,*,Dessert,*,http://a/1'', nl]"
    by code_simp
  have c: "map (map (cell_text demo_lib)) (df_rows (display_frame demo_lib [stew_row, pie_row])) =
     [[''Stew, beef'', ''450'', ''*'', ''*'', ''*'', '''', ''*'', ''http://a/3''],
      [''Apple Pie'', ''650'', ''*'', ''*'', ''*'', ''Dessert'', ''*'', ''http://a/1'']]"
    by code_simp
  from csv_export[OF s n, of demo_lib] have
    m: "main_content demo_lib demo_engine demo_filter = Inr ([] @
          [St_success (str_int (int (length [stew_row, pie_row])) @ '' recipes match your criteria''),
           St_dataframe (display_frame demo_lib [stew_row, pie_row]),
           St_download_button ''Download Results as CSV''
             (to_csv demo_lib (display_frame demo_lib [stew_row, pie_row]))
             (''recipe_results_'' @ str_int (cal_min demo_filter) @ ''-'' @
              str_int (cal_max demo_filter) @ ''cal.csv'') ''text/csv''])"
    and a: "\<forall>evs. main_content demo_lib demo_engine demo_filter = Inr evs \<longrightarrow>
       (\<exists>disp. evs = [] @
                [St_success (str_int (int (length (df_rows (frame_of_rows [stew_row, pie_row])))) @
                             '' recipes match your criteria''),
                 St_dataframe disp,
                 St_download_button ''Download Results as CSV'' (to_csv demo_lib disp)
                   (''recipe_results_'' @ str_int (cal_min demo_filter) @ ''-'' @
                    str_int (cal_max demo_filter) @ ''cal.csv'') ''text/csv''] \<and>
              parse_csv (to_csv demo_lib disp) =
                [''Recipe Name'', ''Calories'', ''Carbs %'', ''Fat %'', ''Protein %'',
                 ''Category'', ''Rating'', ''URL''] #
                map (map (cell_text demo_lib)) (df_rows disp) \<and>
              length (df_rows disp) = length (df_rows (frame_of_rows [stew_row, pie_row])))"
    by simp_all
  from a m obtain disp where
    "St_dataframe disp = St_dataframe (display_frame demo_lib [stew_row, pie_row])"
    and p: "parse_csv (to_csv demo_lib disp) =
                [''Recipe Name'', ''Calories'', ''Carbs %'', ''Fat %'', ''Protein %'',
                 ''Category'', ''Rating'', ''URL''] #
                map (map (cell_text demo_lib)) (df_rows disp)"
    by auto
  then have "disp = display_frame demo_lib [stew_row, pie_row]" by simp
  with p c have "parse_csv (to_csv demo_lib (display_frame demo_lib [stew_row, pie_row])) =
     [[''Recipe Name'', ''Calories'', ''Carbs %'', ''Fat %'', ''Protein %'', ''Category'',
       ''Rating'', ''URL''],
      [''Stew, beef'', ''450'', ''*'', ''*'', ''*'', '''', ''*'', ''http://a/3''],
      [''Apple Pie'', ''650'', ''*'', ''*'', ''*'', ''Dessert'', ''*'', ''http://a/1'']]"
    by simp
  moreover from m i have "main_content demo_lib demo_engine demo_filter =
     Inr [St_success ''2 recipes match your criteria'',
          St_dataframe (display_frame demo_lib [stew_row, pie_row]),
          St_download_button ''Download Results as CSV''
            (to_csv demo_lib (display_frame demo_lib [stew_row, pie_row]))
            ''recipe_results_100-700cal.csv'' ''text/csv'']"
    by simp
  ultimately show ?thesis using s n t by simp
qed


end
